theory Spec2Isabelle
  imports Main
begin

section \<open>Values and errors of the program\<close>

text \<open>
  The functions of \<^verbatim>\<open>mcresources/utils.py\<close> dispatch on the runtime shape of their
  argument. A value is the absent marker, a boolean, an integer, a string, a mapping with
  string keys (kept in insertion order) or a sequence. Lists, tuples and the named tuple
  \<^verbatim>\<open>ResourceLocation\<close> are all instances of \<^verbatim>\<open>Sequence\<close>; the kind is kept so that
  \<^verbatim>\<open>isinstance(data, ResourceLocation)\<close> can be answered.
\<close>

datatype seq_kind = PyList | PyTuple | PyResourceLocation

datatype pyval =
    PNone
  | PBool bool
  | PInt int
  | PStr string
  | PDict "(string \<times> pyval) list"
  | PSeq seq_kind "pyval list"

text \<open>
  Every \<^verbatim>\<open>raise\<close> of the source is one constructor; \<^verbatim>\<open>RuntimeError_unknown v f\<close> is
  \<^verbatim>\<open>RuntimeError('Unknown object %s at f' % str(v))\<close>. The last four are the exceptions
  Python's own operations raise.
\<close>

datatype error =
    RuntimeError_arguments
  | RuntimeError_unknown pyval string
  | RuntimeError_two_entries
  | ValueError_none
  | ValueError_substring
  | TypeError
  | IndexError
  | KeyError

definition ResourceLocation :: "pyval \<Rightarrow> pyval \<Rightarrow> pyval" where
  "ResourceLocation domain path = PSeq PyResourceLocation [domain, path]"

fun isinstance_ResourceLocation :: "pyval \<Rightarrow> bool" where
  "isinstance_ResourceLocation (PSeq PyResourceLocation xs) = True"
| "isinstance_ResourceLocation v = False"

fun isinstance_str :: "pyval \<Rightarrow> bool" where
  "isinstance_str (PStr s) = True"
| "isinstance_str v = False"

fun isinstance_Dict :: "pyval \<Rightarrow> bool" where
  "isinstance_Dict (PDict d) = True"
| "isinstance_Dict v = False"

fun isinstance_Sequence :: "pyval \<Rightarrow> bool" where
  "isinstance_Sequence (PStr s) = True"
| "isinstance_Sequence (PSeq k xs) = True"
| "isinstance_Sequence v = False"

definition is_sequence :: "pyval \<Rightarrow> bool" where
  "is_sequence data_in = (isinstance_Sequence data_in \<and> \<not> isinstance_str data_in)"

text \<open>A list comprehension whose body may raise stops at the first element that raises.\<close>

fun mapM :: "('a \<Rightarrow> error + 'b) \<Rightarrow> 'a list \<Rightarrow> error + 'b list" where
  "mapM f [] = Inr []"
| "mapM f (x # xs) =
     (case f x of
        Inl e \<Rightarrow> Inl e
      | Inr y \<Rightarrow> (case mapM f xs of Inl e \<Rightarrow> Inl e | Inr ys \<Rightarrow> Inr (y # ys)))"

lemma mapM_cong [fundef_cong]:
  "xs = ys \<Longrightarrow> (\<And>x. x \<in> set ys \<Longrightarrow> f x = g x) \<Longrightarrow> mapM f xs = mapM g ys"
  by (induction ys arbitrary: xs) (auto split: sum.splits)

section \<open>Strings\<close>

text \<open>
  A string is the list of its characters. \<^verbatim>\<open>s.split(c)\<close>, \<^verbatim>\<open>c.join(parts)\<close> (a
  \<^verbatim>\<open>TypeError\<close> when a part is not a string), \<^verbatim>\<open>s.index(c)\<close> (a \<^verbatim>\<open>ValueError\<close>
  when \<^verbatim>\<open>c\<close> does not occur) and \<^verbatim>\<open>c in s\<close>; slices are \<open>take\<close> and \<open>drop\<close>.
\<close>

fun str_split :: "string \<Rightarrow> char \<Rightarrow> string list" where
  "str_split [] c = [[]]"
| "str_split (x # xs) c =
     (if x = c then [] # str_split xs c
      else (case str_split xs c of [] \<Rightarrow> [[x]] | w # ws \<Rightarrow> (x # w) # ws))"

fun str_join :: "char \<Rightarrow> pyval list \<Rightarrow> error + string" where
  "str_join c [] = Inr []"
| "str_join c [PStr s] = Inr s"
| "str_join c (PStr s # xs) =
     (case str_join c xs of Inl e \<Rightarrow> Inl e | Inr r \<Rightarrow> Inr (s @ c # r))"
| "str_join c (v # xs) = Inl TypeError"

fun str_index :: "string \<Rightarrow> char \<Rightarrow> error + nat" where
  "str_index [] c = Inl ValueError_substring"
| "str_index (x # xs) c =
     (if x = c then Inr 0
      else (case str_index xs c of Inl e \<Rightarrow> Inl e | Inr i \<Rightarrow> Inr (Suc i)))"

definition str_contains :: "char \<Rightarrow> string \<Rightarrow> bool" where
  "str_contains c s = (c \<in> set s)"

section \<open>Shape flattener\<close>

text \<open>
  \<^verbatim>\<open>flatten_list\<close> is a generator over the elements of a sequence; the model takes the
  elements and returns the list the generator yields. Strings are leaves.
\<close>

fun flatten_list :: "pyval list \<Rightarrow> pyval list" where
  "flatten_list [] = []"
| "flatten_list (PSeq k ys # xs) = flatten_list ys @ flatten_list xs"
| "flatten_list (x # xs) = x # flatten_list xs"

text \<open>
  Pre-flattening, for stating that flattening is associative: \<open>preflattened xs ys\<close>
  holds when \<open>ys\<close> is \<open>xs\<close> with some of its nested sequences, at any depth, replaced
  by the list of their own flattening (the others are kept, or pre-flattened inside).
\<close>

inductive preflattened :: "pyval list \<Rightarrow> pyval list \<Rightarrow> bool" where
  pre_Nil: "preflattened [] []"
| pre_keep: "preflattened xs ys \<Longrightarrow> preflattened (x # xs) (x # ys)"
| pre_inside:
    "preflattened zs zs' \<Longrightarrow> preflattened xs ys
     \<Longrightarrow> preflattened (PSeq k zs # xs) (PSeq k zs' # ys)"
| pre_flatten:
    "preflattened zs zs' \<Longrightarrow> preflattened xs ys
     \<Longrightarrow> preflattened (PSeq k zs # xs) (PSeq PyList (flatten_list zs') # ys)"

section \<open>Identifier resolver\<close>

fun str_path :: "pyval \<Rightarrow> error + pyval list" where
  "str_path (PStr s) = Inr (map PStr (str_split s CHR ''/''))"
| "str_path (PSeq k xs) =
     (case mapM str_path xs of
        Inl e \<Rightarrow> Inl e
      | Inr rs \<Rightarrow> Inr (flatten_list (map (PSeq PyList) rs)))"
| "str_path v = Inl (RuntimeError_unknown v ''str_path'')"

definition resource_location :: "pyval list \<Rightarrow> error + pyval" where
  "resource_location elements =
     (if length elements \<notin> {1, 2} then Inl RuntimeError_arguments
      else
        let (domain, data) =
              (if length elements = 1 then (PStr ''minecraft'', elements ! 0)
               else (elements ! 0, elements ! 1))
        in if isinstance_ResourceLocation data then Inr data
           else
             (case str_path data of
                Inl e \<Rightarrow> Inl e
              | Inr parts \<Rightarrow>
                  (case str_join CHR ''/'' parts of
                     Inl e \<Rightarrow> Inl e
                   | Inr joined \<Rightarrow>
                       if str_contains CHR '':'' joined then
                         (case str_index joined CHR '':'' of
                            Inl e \<Rightarrow> Inl e
                          | Inr i \<Rightarrow>
                              Inr (ResourceLocation (PStr (take i joined))
                                     (PStr (drop (i + 1) joined))))
                       else Inr (ResourceLocation domain (PStr joined)))))"

section \<open>Mappings\<close>

text \<open>
  A \<^verbatim>\<open>dict\<close> is its items in insertion order. Storing under a key that is present
  replaces the value and keeps the key's position; a dict display
  \<^verbatim>\<open>{k1: v1, k2: v2, **d}\<close> stores its items from left to right.
\<close>

type_synonym pydict = "(string \<times> pyval) list"

fun dict_set :: "string \<Rightarrow> pyval \<Rightarrow> pydict \<Rightarrow> pydict" where
  "dict_set k v [] = [(k, v)]"
| "dict_set k v ((k', v') # d) = (if k' = k then (k, v) # d else (k', v') # dict_set k v d)"

definition dict_update :: "pydict \<Rightarrow> pydict \<Rightarrow> pydict" where
  "dict_update d items = foldl (\<lambda>acc kv. dict_set (fst kv) (snd kv) acc) d items"

definition mk_dict :: "pydict \<Rightarrow> pydict" where
  "mk_dict items = dict_update [] items"

section \<open>Document sink: dropping absent values\<close>

fun del_none :: "pyval \<Rightarrow> error + pyval" where
  "del_none (PDict d) =
     (case mapM (\<lambda>kv. case del_none (snd kv) of
                          Inl e \<Rightarrow> Inl e
                        | Inr v \<Rightarrow> Inr (fst kv, v))
                (filter (\<lambda>kv. snd kv \<noteq> PNone) d) of
        Inl e \<Rightarrow> Inl e
      | Inr d' \<Rightarrow> Inr (PDict (mk_dict d')))"
| "del_none (PSeq k xs) =
     (case mapM del_none (filter (\<lambda>p. p \<noteq> PNone) xs) of
        Inl e \<Rightarrow> Inl e
      | Inr ys \<Rightarrow> Inr (PSeq PyList ys))"
| "del_none PNone = Inl ValueError_none"
| "del_none v = Inr v"

text \<open>
  A value is free of the absent marker when it is not the marker and holds it nowhere:
  not as the value of a key, not as an element, at any depth.
\<close>

fun none_free :: "pyval \<Rightarrow> bool" where
  "none_free PNone = False"
| "none_free (PDict d) = list_all (\<lambda>kv. none_free (snd kv)) d"
| "none_free (PSeq k xs) = list_all none_free xs"
| "none_free v = True"

section \<open>Generic value normalizer\<close>

definition dict_get ::
  "pydict \<Rightarrow> string \<Rightarrow> pyval \<Rightarrow> (pyval \<Rightarrow> error + pyval) option \<Rightarrow> error + pyval" where
  "dict_get data_in key default_value map_function =
     (case map_of data_in key of
        Some v \<Rightarrow> (case map_function of None \<Rightarrow> Inr v | Some f \<Rightarrow> f v)
      | None \<Rightarrow> Inr default_value)"

section \<open>Asset parts\<close>

text \<open>
  Each normalizer is an \<^verbatim>\<open>isinstance\<close> chain; the equations keep its order.
  \<^verbatim>\<open>[*flatten_list([f(p) for p in data_in])]\<close> builds the list of results, which stops
  at the first element for which \<^verbatim>\<open>f\<close> raises, and flattens it.
\<close>

fun recipe_condition :: "pyval \<Rightarrow> bool \<Rightarrow> error + pyval" where
  "recipe_condition PNone strict = Inr PNone"
| "recipe_condition (PStr s) strict = Inr (PSeq PyList [PDict (mk_dict [(''type'', PStr s)])])"
| "recipe_condition (PDict d) strict = Inr (PSeq PyList [PDict d])"
| "recipe_condition (PSeq k xs) strict =
     (if \<not> strict then
        (case mapM (\<lambda>c. recipe_condition c True) xs of
           Inl e \<Rightarrow> Inl e
         | Inr rs \<Rightarrow> Inr (PSeq PyList (flatten_list rs)))
      else Inl (RuntimeError_unknown (PSeq k xs) ''recipe_condition''))"
| "recipe_condition v strict = Inl (RuntimeError_unknown v ''recipe_condition'')"

text \<open>
  In \<^verbatim>\<open>item_stack\<close> a sequence of any length but two raises; of a pair, the second
  element is normalized and unpacked after the \<^verbatim>\<open>count\<close> item.
\<close>

fun item_stack :: "pyval \<Rightarrow> error + pyval" where
  "item_stack (PStr s) =
     (if take 4 s = ''tag!'' then Inr (PDict (mk_dict [(''tag'', PStr (drop 4 s))]))
      else Inr (PDict (mk_dict [(''item'', PStr s)])))"
| "item_stack (PDict d) = Inr (PDict d)"
| "item_stack (PSeq k [count, stack]) =
     (case item_stack stack of
        Inl e \<Rightarrow> Inl e
      | Inr (PDict d) \<Rightarrow> Inr (PDict (dict_update (mk_dict [(''count'', count)]) d))
      | Inr v \<Rightarrow> Inl TypeError)"
| "item_stack (PSeq k xs) = Inl RuntimeError_two_entries"
| "item_stack v = Inl (RuntimeError_unknown v ''item_stack'')"

fun item_stack_list :: "pyval \<Rightarrow> error + pyval" where
  "item_stack_list (PStr s) =
     (case item_stack (PStr s) of Inl e \<Rightarrow> Inl e | Inr r \<Rightarrow> Inr (PSeq PyList [r]))"
| "item_stack_list (PDict d) =
     (case item_stack (PDict d) of Inl e \<Rightarrow> Inl e | Inr r \<Rightarrow> Inr (PSeq PyList [r]))"
| "item_stack_list (PSeq k xs) =
     (case mapM item_stack xs of
        Inl e \<Rightarrow> Inl e
      | Inr rs \<Rightarrow> Inr (PSeq PyList (flatten_list rs)))"
| "item_stack_list v = Inl (RuntimeError_unknown v ''item_stack_list'')"




text \<open>
  Iterating a value: a sequence gives its elements, a string its characters (strings of
  length one), a mapping its keys; anything else is not iterable.
\<close>

fun py_iter :: "pyval \<Rightarrow> error + pyval list" where
  "py_iter (PSeq k xs) = Inr xs"
| "py_iter (PStr s) = Inr (map (\<lambda>c. PStr [c]) s)"
| "py_iter (PDict d) = Inr (map (\<lambda>kv. PStr (fst kv)) d)"
| "py_iter v = Inl TypeError"

fun blockstate_multipart_part :: "pyval \<Rightarrow> error + pyval" where
  "blockstate_multipart_part (PSeq k [w, a]) =
     Inr (PDict (mk_dict [(''when'', w), (''apply'', a)]))"
| "blockstate_multipart_part (PStr [w, a]) =
     Inr (PDict (mk_dict [(''when'', PStr [w]), (''apply'', PStr [a])]))"
| "blockstate_multipart_part (PDict d) = Inr (PDict (mk_dict [(''apply'', PDict d)]))"
| "blockstate_multipart_part p =
     Inl (RuntimeError_unknown p ''blockstate_multipart_parts#part'')"

definition blockstate_multipart_parts :: "pyval \<Rightarrow> error + pyval" where
  "blockstate_multipart_parts data_in =
     (case py_iter data_in of
        Inl e \<Rightarrow> Inl e
      | Inr ps \<Rightarrow>
          (case mapM blockstate_multipart_part ps of
             Inl e \<Rightarrow> Inl e
           | Inr rs \<Rightarrow> Inr (PSeq PyList rs)))"



section \<open>Loot tables\<close>

definition loot_default_conditions :: "string \<Rightarrow> pyval" where
  "loot_default_conditions loot_type =
     (if loot_type = ''block''
      then PSeq PyList [PDict (mk_dict [(''condition'', PStr ''minecraft:survives_explosion'')])]
      else PNone)"

fun loot_condition_list :: "pyval \<Rightarrow> error + pyval" where
  "loot_condition_list (PStr s) = Inr (PSeq PyList [PDict (mk_dict [(''condition'', PStr s)])])"
| "loot_condition_list (PSeq k xs) =
     (case mapM loot_condition_list xs of
        Inl e \<Rightarrow> Inl e
      | Inr rs \<Rightarrow> Inr (PSeq PyList (flatten_list rs)))"
| "loot_condition_list (PDict d) = Inr (PSeq PyList [PDict d])"
| "loot_condition_list v = Inl (RuntimeError_unknown v ''loot_condition_list'')"

fun loot_function_list :: "pyval \<Rightarrow> error + pyval" where
  "loot_function_list (PStr s) = Inr (PSeq PyList [PDict (mk_dict [(''function'', PStr s)])])"
| "loot_function_list (PSeq k xs) =
     (case mapM loot_function_list xs of
        Inl e \<Rightarrow> Inl e
      | Inr rs \<Rightarrow> Inr (PSeq PyList (flatten_list rs)))"
| "loot_function_list (PDict d) = Inr (PSeq PyList [PDict d])"
| "loot_function_list v = Inl (RuntimeError_unknown v ''loot_function_list'')"

text \<open>
  The values of a dict display are evaluated from left to right, so the first of them
  that raises decides the error.
\<close>

fun loot_entry_list :: "pyval \<Rightarrow> error + pyval" where
  "loot_entry_list (PStr s) =
     (if take 4 s = ''tag!''
      then Inr (PSeq PyList
             [PDict (mk_dict [(''type'', PStr ''minecraft:tag''), (''name'', PStr (drop 4 s))])])
      else Inr (PSeq PyList
             [PDict (mk_dict [(''type'', PStr ''minecraft:item''), (''name'', PStr s)])]))"
| "loot_entry_list (PSeq k xs) =
     (case mapM loot_entry_list xs of
        Inl e \<Rightarrow> Inl e
      | Inr rs \<Rightarrow> Inr (PSeq PyList (flatten_list rs)))"
| "loot_entry_list (PDict d) =
     (case dict_get d ''type'' (PStr ''item'') None of Inl e \<Rightarrow> Inl e | Inr ty \<Rightarrow>
      case dict_get d ''conditions'' PNone (Some loot_condition_list) of
        Inl e \<Rightarrow> Inl e | Inr conditions \<Rightarrow>
      case dict_get d ''name'' PNone None of Inl e \<Rightarrow> Inl e | Inr name \<Rightarrow>
      case dict_get d ''children'' PNone None of Inl e \<Rightarrow> Inl e | Inr children \<Rightarrow>
      case dict_get d ''expand'' PNone None of Inl e \<Rightarrow> Inl e | Inr expand \<Rightarrow>
      case dict_get d ''functions'' PNone (Some loot_function_list) of
        Inl e \<Rightarrow> Inl e | Inr functions \<Rightarrow>
      case dict_get d ''weight'' PNone None of Inl e \<Rightarrow> Inl e | Inr weight \<Rightarrow>
      case dict_get d ''quality'' PNone None of Inl e \<Rightarrow> Inl e | Inr quality \<Rightarrow>
        Inr (PSeq PyList [PDict (mk_dict
          [(''type'', ty), (''conditions'', conditions), (''name'', name),
           (''children'', children), (''expand'', expand), (''functions'', functions),
           (''weight'', weight), (''quality'', quality)])]))"
| "loot_entry_list v = Inl (RuntimeError_unknown v ''loot_entry_list'')"

fun loot_pool_list :: "pyval \<Rightarrow> string \<Rightarrow> error + pyval" where
  "loot_pool_list (PStr s) loot_type =
     (case loot_entry_list (PStr s) of
        Inl e \<Rightarrow> Inl e
      | Inr entries \<Rightarrow>
          Inr (PSeq PyList [PDict (mk_dict
            [(''name'', PStr ''loot_pool''), (''rolls'', PInt 1), (''entries'', entries),
             (''conditions'', loot_default_conditions loot_type)])]))"
| "loot_pool_list (PDict d) loot_type =
     (case dict_get d ''rolls'' (PInt 1) None of Inl e \<Rightarrow> Inl e | Inr rolls \<Rightarrow>
      case dict_get d ''bonus_rolls'' PNone None of Inl e \<Rightarrow> Inl e | Inr bonus_rolls \<Rightarrow>
      case dict_get d ''entries'' (PDict d) (Some loot_entry_list) of
        Inl e \<Rightarrow> Inl e | Inr entries \<Rightarrow>
      case dict_get d ''conditions'' (loot_default_conditions loot_type)
             (Some loot_condition_list) of
        Inl e \<Rightarrow> Inl e | Inr conditions \<Rightarrow>
      case dict_get d ''functions'' PNone (Some loot_function_list) of
        Inl e \<Rightarrow> Inl e | Inr functions \<Rightarrow>
        Inr (PSeq PyList [PDict (mk_dict
          [(''name'', PStr ''loot_pool''), (''rolls'', rolls), (''bonus_rolls'', bonus_rolls),
           (''entries'', entries), (''conditions'', conditions),
           (''functions'', functions)])]))"
| "loot_pool_list (PSeq k xs) loot_type =
     (case mapM (\<lambda>p. loot_pool_list p loot_type) xs of
        Inl e \<Rightarrow> Inl e
      | Inr rs \<Rightarrow> Inr (PSeq PyList (flatten_list rs)))"
| "loot_pool_list v loot_type = Inl (RuntimeError_unknown v ''loot_pool_list'')"

section \<open>Standard blockstates\<close>

definition stairs_variants :: "string \<Rightarrow> string \<Rightarrow> string \<Rightarrow> pydict" where
  "stairs_variants stairs stairs_inner stairs_outer =
     mk_dict [
        (''facing=east,half=bottom,shape=straight'',
          PDict (mk_dict [(''model'', PStr stairs)])),
        (''facing=west,half=bottom,shape=straight'',
          PDict (mk_dict [(''model'', PStr stairs), (''y'', PInt 180), (''uvlock'', PBool True)])),
        (''facing=south,half=bottom,shape=straight'',
          PDict (mk_dict [(''model'', PStr stairs), (''y'', PInt 90), (''uvlock'', PBool True)])),
        (''facing=north,half=bottom,shape=straight'',
          PDict (mk_dict [(''model'', PStr stairs), (''y'', PInt 270), (''uvlock'', PBool True)])),
        (''facing=east,half=bottom,shape=outer_right'',
          PDict (mk_dict [(''model'', PStr stairs_outer)])),
        (''facing=west,half=bottom,shape=outer_right'',
          PDict (mk_dict [(''model'', PStr stairs_outer), (''y'', PInt 180), (''uvlock'', PBool True)])),
        (''facing=south,half=bottom,shape=outer_right'',
          PDict (mk_dict [(''model'', PStr stairs_outer), (''y'', PInt 90), (''uvlock'', PBool True)])),
        (''facing=north,half=bottom,shape=outer_right'',
          PDict (mk_dict [(''model'', PStr stairs_outer), (''y'', PInt 270), (''uvlock'', PBool True)])),
        (''facing=east,half=bottom,shape=outer_left'',
          PDict (mk_dict [(''model'', PStr stairs_outer), (''y'', PInt 270), (''uvlock'', PBool True)])),
        (''facing=west,half=bottom,shape=outer_left'',
          PDict (mk_dict [(''model'', PStr stairs_outer), (''y'', PInt 90), (''uvlock'', PBool True)])),
        (''facing=south,half=bottom,shape=outer_left'',
          PDict (mk_dict [(''model'', PStr stairs_outer)])),
        (''facing=north,half=bottom,shape=outer_left'',
          PDict (mk_dict [(''model'', PStr stairs_outer), (''y'', PInt 180), (''uvlock'', PBool True)])),
        (''facing=east,half=bottom,shape=inner_right'',
          PDict (mk_dict [(''model'', PStr stairs_inner)])),
        (''facing=west,half=bottom,shape=inner_right'',
          PDict (mk_dict [(''model'', PStr stairs_inner), (''y'', PInt 180), (''uvlock'', PBool True)])),
        (''facing=south,half=bottom,shape=inner_right'',
          PDict (mk_dict [(''model'', PStr stairs_inner), (''y'', PInt 90), (''uvlock'', PBool True)])),
        (''facing=north,half=bottom,shape=inner_right'',
          PDict (mk_dict [(''model'', PStr stairs_inner), (''y'', PInt 270), (''uvlock'', PBool True)])),
        (''facing=east,half=bottom,shape=inner_left'',
          PDict (mk_dict [(''model'', PStr stairs_inner), (''y'', PInt 270), (''uvlock'', PBool True)])),
        (''facing=west,half=bottom,shape=inner_left'',
          PDict (mk_dict [(''model'', PStr stairs_inner), (''y'', PInt 90), (''uvlock'', PBool True)])),
        (''facing=south,half=bottom,shape=inner_left'',
          PDict (mk_dict [(''model'', PStr stairs_inner)])),
        (''facing=north,half=bottom,shape=inner_left'',
          PDict (mk_dict [(''model'', PStr stairs_inner), (''y'', PInt 180), (''uvlock'', PBool True)])),
        (''facing=east,half=top,shape=straight'',
          PDict (mk_dict [(''model'', PStr stairs), (''x'', PInt 180), (''uvlock'', PBool True)])),
        (''facing=west,half=top,shape=straight'',
          PDict (mk_dict [(''model'', PStr stairs), (''x'', PInt 180), (''y'', PInt 180), (''uvlock'', PBool True)])),
        (''facing=south,half=top,shape=straight'',
          PDict (mk_dict [(''model'', PStr stairs), (''x'', PInt 180), (''y'', PInt 90), (''uvlock'', PBool True)])),
        (''facing=north,half=top,shape=straight'',
          PDict (mk_dict [(''model'', PStr stairs), (''x'', PInt 180), (''y'', PInt 270), (''uvlock'', PBool True)])),
        (''facing=east,half=top,shape=outer_right'',
          PDict (mk_dict [(''model'', PStr stairs_outer), (''x'', PInt 180), (''y'', PInt 90), (''uvlock'', PBool True)])),
        (''facing=west,half=top,shape=outer_right'',
          PDict (mk_dict [(''model'', PStr stairs_outer), (''x'', PInt 180), (''y'', PInt 270), (''uvlock'', PBool True)])),
        (''facing=south,half=top,shape=outer_right'',
          PDict (mk_dict [(''model'', PStr stairs_outer), (''x'', PInt 180), (''y'', PInt 180), (''uvlock'', PBool True)])),
        (''facing=north,half=top,shape=outer_right'',
          PDict (mk_dict [(''model'', PStr stairs_outer), (''x'', PInt 180), (''uvlock'', PBool True)])),
        (''facing=east,half=top,shape=outer_left'',
          PDict (mk_dict [(''model'', PStr stairs_outer), (''x'', PInt 180), (''uvlock'', PBool True)])),
        (''facing=west,half=top,shape=outer_left'',
          PDict (mk_dict [(''model'', PStr stairs_outer), (''x'', PInt 180), (''y'', PInt 180), (''uvlock'', PBool True)])),
        (''facing=south,half=top,shape=outer_left'',
          PDict (mk_dict [(''model'', PStr stairs_outer), (''x'', PInt 180), (''y'', PInt 90), (''uvlock'', PBool True)])),
        (''facing=north,half=top,shape=outer_left'',
          PDict (mk_dict [(''model'', PStr stairs_outer), (''x'', PInt 180), (''y'', PInt 270), (''uvlock'', PBool True)])),
        (''facing=east,half=top,shape=inner_right'',
          PDict (mk_dict [(''model'', PStr stairs_inner), (''x'', PInt 180), (''y'', PInt 90), (''uvlock'', PBool True)])),
        (''facing=west,half=top,shape=inner_right'',
          PDict (mk_dict [(''model'', PStr stairs_inner), (''x'', PInt 180), (''y'', PInt 270), (''uvlock'', PBool True)])),
        (''facing=south,half=top,shape=inner_right'',
          PDict (mk_dict [(''model'', PStr stairs_inner), (''x'', PInt 180), (''y'', PInt 180), (''uvlock'', PBool True)])),
        (''facing=north,half=top,shape=inner_right'',
          PDict (mk_dict [(''model'', PStr stairs_inner), (''x'', PInt 180), (''uvlock'', PBool True)])),
        (''facing=east,half=top,shape=inner_left'',
          PDict (mk_dict [(''model'', PStr stairs_inner), (''x'', PInt 180), (''uvlock'', PBool True)])),
        (''facing=west,half=top,shape=inner_left'',
          PDict (mk_dict [(''model'', PStr stairs_inner), (''x'', PInt 180), (''y'', PInt 180), (''uvlock'', PBool True)])),
        (''facing=south,half=top,shape=inner_left'',
          PDict (mk_dict [(''model'', PStr stairs_inner), (''x'', PInt 180), (''y'', PInt 90), (''uvlock'', PBool True)])),
        (''facing=north,half=top,shape=inner_left'',
          PDict (mk_dict [(''model'', PStr stairs_inner), (''x'', PInt 180), (''y'', PInt 270), (''uvlock'', PBool True)]))]"

section \<open>Facts about the helpers\<close>



lemma flatten_list_append: "flatten_list (xs @ ys) = flatten_list xs @ flatten_list ys"
  by (induction xs rule: flatten_list.induct) auto




lemma str_index_first:
  "c \<in> set s \<Longrightarrow> str_index s c = Inr (length (takeWhile (\<lambda>x. x \<noteq> c) s))"
  by (induction s) auto

lemma str_index_absent: "c \<notin> set s \<Longrightarrow> str_index s c = Inl ValueError_substring"
  by (induction s) auto

lemma str_split_nonempty: "str_split s c \<noteq> []"
  by (induction s) (auto split: list.splits)

lemma first_colon_split:
  assumes "c \<in> set s"
  shows "s = takeWhile (\<lambda>x. x \<noteq> c) s @ c # tl (dropWhile (\<lambda>x. x \<noteq> c) s)"
proof -
  have "dropWhile (\<lambda>x. x \<noteq> c) s \<noteq> []" using assms by (simp add: dropWhile_eq_Nil_conv)
  moreover have "hd (dropWhile (\<lambda>x. x \<noteq> c) s) = c"
    using assms hd_dropWhile [of "\<lambda>x. x \<noteq> c" s] calculation by auto
  ultimately have "dropWhile (\<lambda>x. x \<noteq> c) s = c # tl (dropWhile (\<lambda>x. x \<noteq> c) s)"
    by (cases "dropWhile (\<lambda>x. x \<noteq> c) s") auto
  then show ?thesis
    using takeWhile_dropWhile_id [of "\<lambda>x. x \<noteq> c" s] by simp
qed

lemma resource_location_joined:
  assumes "\<not> isinstance_ResourceLocation data" and "str_path data = Inr parts"
    and j: "str_join CHR ''/'' parts = Inr joined"
  shows "resource_location [dflt, data] =
       Inr (if CHR '':'' \<in> set joined
            then ResourceLocation (PStr (takeWhile (\<lambda>x. x \<noteq> CHR '':'') joined))
                   (PStr (tl (dropWhile (\<lambda>x. x \<noteq> CHR '':'') joined)))
            else ResourceLocation dflt (PStr joined))"
proof -
  have "drop (Suc (length (takeWhile (\<lambda>x. x \<noteq> CHR '':'') joined))) joined
        = tl (dropWhile (\<lambda>x. x \<noteq> CHR '':'') joined)"
    by (simp add: dropWhile_eq_drop drop_Suc tl_drop)
  moreover have "take (length (takeWhile (\<lambda>x. x \<noteq> CHR '':'') joined)) joined
        = takeWhile (\<lambda>x. x \<noteq> CHR '':'') joined"
    by (simp add: takeWhile_eq_take [symmetric])
  ultimately show ?thesis
    using assms
    by (simp add: resource_location_def str_contains_def str_index_first)
qed



lemma first_colon_unique:
  "c \<notin> set d \<Longrightarrow> takeWhile (\<lambda>x. x \<noteq> c) (d @ c # p) = d \<and> dropWhile (\<lambda>x. x \<noteq> c) (d @ c # p) = c # p"
  by (induction d) auto


lemma mk_dict_simps:
  "mk_dict [] = []"
  "mk_dict [(k, v)] = [(k, v)]"
  by (simp_all add: mk_dict_def dict_update_def)

lemma mapM_Inl_first:
  "x \<in> set xs \<Longrightarrow> f x = Inl e \<Longrightarrow> \<exists>x'\<in>set xs. \<exists>e'. f x' = Inl e' \<and> mapM f xs = Inl e'"
  by (induction xs) (auto split: sum.splits)

lemma mapM_all_Inr:
  "(\<And>x. x \<in> set xs \<Longrightarrow> f x = Inr (g x)) \<Longrightarrow> mapM f xs = Inr (map g xs)"
  by (induction xs) auto

lemma recipe_condition_strict_error:
  "recipe_condition c True = Inl e \<Longrightarrow> e = RuntimeError_unknown c ''recipe_condition''"
  by (cases c) auto

lemma flatten_list_singletons:
  "(\<And>c. c \<in> set xs \<Longrightarrow> isinstance_Dict (g c))
   \<Longrightarrow> flatten_list (map (\<lambda>c. PSeq k [g c]) xs) = map g xs"
proof (induction xs)
  case Nil
  then show ?case by simp
next
  case (Cons x xs)
  then have "isinstance_Dict (g x)" by simp
  then obtain d where "g x = PDict d" by (cases "g x") auto
  then show ?case using Cons by simp
qed

lemma is_sequence_PSeq: "is_sequence v \<longleftrightarrow> (\<exists>k ys. v = PSeq k ys)"
  by (cases v) (auto simp: is_sequence_def)

lemma flatten_list_Cons: "flatten_list (x # xs) = flatten_list [x] @ flatten_list xs"
  using flatten_list_append [of "[x]" xs] by simp

lemma flatten_list_idem: "flatten_list (flatten_list xs) = flatten_list xs"
  by (induction xs rule: flatten_list.induct) (auto simp: flatten_list_append)

lemma stairs_keys_distinct: "distinct [''facing='' @ f @ '',half='' @ h @ '',shape='' @ s.
               h \<leftarrow> [''bottom'', ''top''],
               s \<leftarrow> [''straight'', ''outer_right'', ''outer_left'',
                        ''inner_right'', ''inner_left''],
               f \<leftarrow> [''east'', ''west'', ''south'', ''north'']]"
  by code_simp

lemma stairs_keys_same_set: "set [''facing='' @ f @ '',half='' @ h @ '',shape='' @ s.
               h \<leftarrow> [''bottom'', ''top''],
               s \<leftarrow> [''straight'', ''outer_right'', ''outer_left'',
                        ''inner_right'', ''inner_left''],
               f \<leftarrow> [''east'', ''west'', ''south'', ''north'']]
    = set [''facing='' @ f @ '',half='' @ h @ '',shape='' @ s.
               f \<leftarrow> [''east'', ''west'', ''south'', ''north''],
               h \<leftarrow> [''bottom'', ''top''],
               s \<leftarrow> [''straight'', ''inner_left'', ''inner_right'',
                        ''outer_left'', ''outer_right'']]"
  by code_simp


lemma dict_set_fresh: "k \<notin> fst ` set d \<Longrightarrow> dict_set k v d = d @ [(k, v)]"
  by (induction d) auto

lemma dict_update_distinct:
  "distinct (map fst (d @ items)) \<Longrightarrow> dict_update d items = d @ items"
proof (induction items arbitrary: d)
  case Nil
  then show ?case by (simp add: dict_update_def)
next
  case (Cons kv items)
  have "dict_set (fst kv) (snd kv) d = d @ [kv]"
    using Cons.prems by (intro dict_set_fresh [THEN trans]) auto
  moreover have "dict_update (d @ [kv]) items = (d @ [kv]) @ items"
    using Cons.prems by (intro Cons.IH) simp
  ultimately show ?case by (simp add: dict_update_def)
qed

lemma mk_dict_distinct: "distinct (map fst items) \<Longrightarrow> mk_dict items = items"
  using dict_update_distinct [of "[]" items] by (simp add: mk_dict_def)

lemma mk_dict_keys:
  "map fst items = keys \<Longrightarrow> distinct keys \<Longrightarrow> map fst (mk_dict items) = keys
     \<and> length (mk_dict items) = length keys"
  using mk_dict_distinct [of items] by (auto simp: length_map [symmetric] simp del: length_map)

lemma stairs_variants_key_list:
  "map fst (stairs_variants stairs stairs_inner stairs_outer)
     = [''facing='' @ f @ '',half='' @ h @ '',shape='' @ s.
               h \<leftarrow> [''bottom'', ''top''],
               s \<leftarrow> [''straight'', ''outer_right'', ''outer_left'',
                        ''inner_right'', ''inner_left''],
               f \<leftarrow> [''east'', ''west'', ''south'', ''north'']]
   \<and> length (stairs_variants stairs stairs_inner stairs_outer) = 40"
proof -
  let ?keys = "[''facing='' @ f @ '',half='' @ h @ '',shape='' @ s.
               h \<leftarrow> [''bottom'', ''top''],
               s \<leftarrow> [''straight'', ''outer_right'', ''outer_left'',
                        ''inner_right'', ''inner_left''],
               f \<leftarrow> [''east'', ''west'', ''south'', ''north'']]"
  have l: "length ?keys = 40" by simp
  show ?thesis
    unfolding stairs_variants_def l [symmetric]
    by (rule mk_dict_keys) (simp, rule stairs_keys_distinct)
qed

lemma dict_set_subset: "set (dict_set k v d) \<subseteq> insert (k, v) (set d)"
  by (induction d) (auto split: if_splits)

lemma dict_update_subset: "set (dict_update d items) \<subseteq> set d \<union> set items"
proof (induction items arbitrary: d)
  case Nil
  then show ?case by (simp add: dict_update_def)
next
  case (Cons kv items)
  have "set (dict_update (dict_set (fst kv) (snd kv) d) items)
        \<subseteq> set (dict_set (fst kv) (snd kv) d) \<union> set items"
    by (rule Cons.IH)
  then show ?case
    using dict_set_subset [of "fst kv" "snd kv" d] by (auto simp: dict_update_def)
qed

lemma mk_dict_subset: "set (mk_dict items) \<subseteq> set items"
  using dict_update_subset [of "[]" items] by (simp add: mk_dict_def)

lemma mapM_all_ex:
  "(\<And>x. x \<in> set xs \<Longrightarrow> \<exists>y. f x = Inr y \<and> P y)
   \<Longrightarrow> \<exists>ys. mapM f xs = Inr ys \<and> list_all P ys"
proof (induction xs)
  case Nil
  then show ?case by simp
next
  case (Cons x xs)
  obtain y where y: "f x = Inr y" "P y" using Cons.prems by auto
  obtain ys where ys: "mapM f xs = Inr ys" "list_all P ys" using Cons by auto
  show ?case using y ys by simp
qed

lemma del_none_none_free:
  "v \<noteq> PNone \<Longrightarrow> \<exists>r. del_none v = Inr r \<and> none_free r"
proof (induction v rule: del_none.induct)
  case (1 d)
  let ?f = "\<lambda>kv. case del_none (snd kv) of Inl e \<Rightarrow> Inl e | Inr v \<Rightarrow> Inr (fst kv, v)"
  have "\<exists>y. ?f kv = Inr y \<and> none_free (snd y)"
    if mem: "kv \<in> set (filter (\<lambda>kv. snd kv \<noteq> PNone) d)" for kv
  proof -
    from mem have n: "snd kv \<noteq> PNone" by simp
    obtain r where "del_none (snd kv) = Inr r" "none_free r"
      using "1.IH" [OF mem n] by blast
    then show ?thesis by simp
  qed
  then obtain d' where d': "mapM ?f (filter (\<lambda>kv. snd kv \<noteq> PNone) d) = Inr d'"
    "list_all (\<lambda>kv. none_free (snd kv)) d'"
    using mapM_all_ex [of "filter (\<lambda>kv. snd kv \<noteq> PNone) d" ?f "\<lambda>kv. none_free (snd kv)"]
    by blast
  have "list_all (\<lambda>kv. none_free (snd kv)) (mk_dict d')"
    using d'(2) mk_dict_subset [of d'] by (auto simp: list_all_iff)
  then show ?case using d'(1) by simp
next
  case (2 k xs)
  have "\<exists>y. del_none x = Inr y \<and> none_free y"
    if "x \<in> set (filter (\<lambda>p. p \<noteq> PNone) xs)" for x
    using "2.IH" [OF that] that by simp
  then obtain ys where "mapM del_none (filter (\<lambda>p. p \<noteq> PNone) xs) = Inr ys"
    "list_all none_free ys"
    using mapM_all_ex [of "filter (\<lambda>p. p \<noteq> PNone) xs" del_none none_free] by blast
  then show ?case by simp
qed simp_all

lemma loot_entry_list_is_list: "loot_entry_list data_in = Inr r \<Longrightarrow> r \<noteq> PNone"
  by (cases data_in) (auto split: sum.splits if_splits)

lemma loot_pool_list_is_list: "loot_pool_list data_in loot_type = Inr r \<Longrightarrow> r \<noteq> PNone"
  by (cases data_in) (auto split: sum.splits)

lemma dict_get_absent: "map_of d k = None \<Longrightarrow> dict_get d k dv f = Inr dv"
  by (simp add: dict_get_def)

lemma loot_entry_list_str_none_free:
  "\<exists>e. loot_entry_list (PStr s) = Inr e \<and> none_free e"
  by (simp add: mk_dict_def dict_update_def)

lemma loot_pool_list_str_block_none_free:
  "\<exists>p. loot_pool_list (PStr s) ''block'' = Inr p \<and> none_free p"
  by (simp add: mk_dict_def dict_update_def loot_default_conditions_def)

lemma loot_pool_list_str_other_kind:
  "loot_type \<noteq> ''block'' \<Longrightarrow>
   \<exists>d. loot_pool_list (PStr s) loot_type = Inr (PSeq PyList [PDict d])
       \<and> map_of d ''conditions'' = Some PNone"
  by (simp add: mk_dict_def dict_update_def loot_default_conditions_def)

lemma loot_entry_list_dict_no_name:
  "map_of d ''name'' = None \<Longrightarrow> loot_entry_list (PDict d) = Inr r \<Longrightarrow>
   \<exists>d'. r = PSeq PyList [PDict d'] \<and> map_of d' ''name'' = Some PNone"
  by (auto simp: dict_get_absent mk_dict_def dict_update_def split: sum.splits)

section \<open>Properties of the identifier resolver\<close>




text \<open>
  C2 (as the code has it): the single string \<^verbatim>\<open>"a:b:c"\<close> resolves to domain \<^verbatim>\<open>a\<close> and
  path \<^verbatim>\<open>b:c\<close>: the text is cut at its first colon and everything after it, later colons
  included, is the path. The cut is made on the joined text: the segments
  \<^verbatim>\<open>["a:b", "c:d"]\<close> resolve to domain \<^verbatim>\<open>a\<close> and path \<^verbatim>\<open>b/c:d\<close>.
\<close>

theorem resource_location_first_colon_example:
  "resource_location [PStr ''a:b:c''] = Inr (ResourceLocation (PStr ''a'') (PStr ''b:c''))
   \<and> resource_location [PSeq PyList [PStr ''a:b'', PStr ''c:d'']]
       = Inr (ResourceLocation (PStr ''a'') (PStr ''b/c:d''))"
  by (simp add: resource_location_def str_contains_def ResourceLocation_def)

text \<open>
  C2 (as the claim states it) fails: the path resolved from \<^verbatim>\<open>"a:b:c"\<close> is not \<^verbatim>\<open>b\<close>.
\<close>

theorem resource_location_abc_path_not_b:
  "resource_location [PStr ''a:b:c''] \<noteq> Inr (ResourceLocation (PStr ''a'') (PStr ''b''))"
  by (simp add: resource_location_def str_contains_def ResourceLocation_def)

text \<open>
  C7 (as the claim states it) fails: the empty string is accepted and resolves to an
  empty path, and the string \<^verbatim>\<open>":"\<close> resolves to an empty domain and an empty path.
\<close>

theorem resource_location_empty_parts:
  "resource_location [PStr ''''] = Inr (ResourceLocation (PStr ''minecraft'') (PStr ''''))
   \<and> resource_location [PStr '':''] = Inr (ResourceLocation (PStr '''') (PStr ''''))"
  by (simp add: resource_location_def str_contains_def ResourceLocation_def)


text \<open>
  C7 (as the code has it): for a path specification that is not a pre-built
  \<^verbatim>\<open>ResourceLocation\<close> and that \<^verbatim>\<open>str_path\<close> accepts, the resolved path is a string,
  empty exactly when the joined text is empty or ends with its first colon; the resolved
  domain is the empty string exactly when the joined text begins with a colon, or holds
  no colon and the default domain is the empty string. The one-argument call is the
  two-argument call with default domain \<^verbatim>\<open>minecraft\<close> (\<open>resource_location_single\<close>).
\<close>

theorem resource_location_nonempty_iff:
  assumes "\<not> isinstance_ResourceLocation data" and "str_path data = Inr parts"
    and "str_join CHR ''/'' parts = Inr joined"
  shows "\<exists>d p. resource_location [dflt, data] = Inr (ResourceLocation d (PStr p)) \<and>
     (p = [] \<longleftrightarrow> joined = [] \<or> (\<exists>pre. joined = pre @ [CHR '':''] \<and> CHR '':'' \<notin> set pre)) \<and>
     (d = PStr [] \<longleftrightarrow> (\<exists>rest. joined = CHR '':'' # rest) \<or> (CHR '':'' \<notin> set joined \<and> dflt = PStr []))"
proof (cases "CHR '':'' \<in> set joined")
  case True
  let ?d = "takeWhile (\<lambda>x. x \<noteq> CHR '':'') joined"
  let ?p = "tl (dropWhile (\<lambda>x. x \<noteq> CHR '':'') joined)"
  have r: "resource_location [dflt, data] = Inr (ResourceLocation (PStr ?d) (PStr ?p))"
    using True resource_location_joined [OF assms, of dflt] by simp
  have s: "joined = ?d @ CHR '':'' # ?p" using True by (rule first_colon_split)
  have n: "CHR '':'' \<notin> set ?d" by (auto dest: set_takeWhileD)
  have p: "?p = [] \<longleftrightarrow> joined = [] \<or> (\<exists>pre. joined = pre @ [CHR '':''] \<and> CHR '':'' \<notin> set pre)"
  proof
    assume "?p = []"
    then have "joined = ?d @ [CHR '':'']" using s by simp
    then show "joined = [] \<or> (\<exists>pre. joined = pre @ [CHR '':''] \<and> CHR '':'' \<notin> set pre)"
      using n by blast
  next
    assume "joined = [] \<or> (\<exists>pre. joined = pre @ [CHR '':''] \<and> CHR '':'' \<notin> set pre)"
    then obtain pre where "joined = pre @ [CHR '':'']" "CHR '':'' \<notin> set pre"
      using True by auto
    then show "?p = []"
      using first_colon_unique [of "CHR '':''" pre "[]"] by simp
  qed
  have d: "PStr ?d = PStr [] \<longleftrightarrow> (\<exists>rest. joined = CHR '':'' # rest) \<or> (CHR '':'' \<notin> set joined \<and> dflt = PStr [])"
  proof
    assume "PStr ?d = PStr []"
    then have "joined = CHR '':'' # ?p" using s by simp
    then show "(\<exists>rest. joined = CHR '':'' # rest) \<or> (CHR '':'' \<notin> set joined \<and> dflt = PStr [])"
      by blast
  next
    assume "(\<exists>rest. joined = CHR '':'' # rest) \<or> (CHR '':'' \<notin> set joined \<and> dflt = PStr [])"
    then obtain rest where "joined = CHR '':'' # rest" using True by auto
    then show "PStr ?d = PStr []" by simp
  qed
  show ?thesis using r p d by blast
next
  case False
  have r: "resource_location [dflt, data] = Inr (ResourceLocation dflt (PStr joined))"
    using False resource_location_joined [OF assms, of dflt] by simp
  have p: "joined = [] \<longleftrightarrow> joined = [] \<or> (\<exists>pre. joined = pre @ [CHR '':''] \<and> CHR '':'' \<notin> set pre)"
    using False by auto
  have d: "dflt = PStr [] \<longleftrightarrow> (\<exists>rest. joined = CHR '':'' # rest) \<or> (CHR '':'' \<notin> set joined \<and> dflt = PStr [])"
    using False by auto
  show ?thesis using r p d by blast
qed


theorem resource_location_nonempty_iff_witness:
  "\<exists>d p. resource_location [PStr ''foo'', PStr ''bar/baz''] = Inr (ResourceLocation d (PStr p))
     \<and> p \<noteq> [] \<and> d \<noteq> PStr []"
  using resource_location_nonempty_iff [of "PStr ''bar/baz''" "[PStr ''bar'', PStr ''baz'']" "''bar/baz''" "PStr ''foo''"]
  by (simp add: ResourceLocation_def)

section \<open>Properties of the dialect normalizers\<close>

text \<open>
  C4 (as the claim states it) fails: \<^verbatim>\<open>item_stack_list([2, "minecraft:stick"])\<close> does
  not return the count-merged mapping.
\<close>

theorem item_stack_list_count_pair_raises:
  "item_stack_list (PSeq PyList [PInt 2, PStr ''minecraft:stick''])
     \<noteq> Inr (PSeq PyList [PDict [(''count'', PInt 2), (''item'', PStr ''minecraft:stick'')]])"
  by (simp add: mk_dict_def dict_update_def)

text \<open>
  C4 (as the code has it): \<^verbatim>\<open>item_stack_list\<close> reads a sequence as a list of item
  stacks, so on \<^verbatim>\<open>[2, "minecraft:stick"]\<close> it normalizes the element \<^verbatim>\<open>2\<close> first
  and raises the unrecognized-input error of \<^verbatim>\<open>item_stack\<close>. The pair is a stack with
  a count for \<^verbatim>\<open>item_stack\<close>, and for \<^verbatim>\<open>item_stack_list\<close> when it is an element of
  the list: \<^verbatim>\<open>item_stack_list([[2, "minecraft:stick"]])\<close> is
  \<^verbatim>\<open>[{"count": 2, "item": "minecraft:stick"}]\<close>.
\<close>

theorem item_stack_list_count_pair:
  "item_stack_list (PSeq PyList [PInt 2, PStr ''minecraft:stick''])
     = Inl (RuntimeError_unknown (PInt 2) ''item_stack'')
   \<and> item_stack (PSeq PyList [PInt 2, PStr ''minecraft:stick''])
     = Inr (PDict [(''count'', PInt 2), (''item'', PStr ''minecraft:stick'')])
   \<and> item_stack_list (PSeq PyList [PSeq PyList [PInt 2, PStr ''minecraft:stick'']])
     = Inr (PSeq PyList [PDict [(''count'', PInt 2), (''item'', PStr ''minecraft:stick'')]])"
  by (simp add: mk_dict_def dict_update_def)

text \<open>
  C5: for every string \<^verbatim>\<open>s\<close>, \<^verbatim>\<open>loot_pool_list(s, loot_type)\<close> is one pool named
  \<^verbatim>\<open>loot_pool\<close> with \<^verbatim>\<open>rolls\<close> 1 and one entry: a tag entry named by the rest of
  \<^verbatim>\<open>s\<close> when \<^verbatim>\<open>s\<close> starts with \<^verbatim>\<open>tag!\<close>, an item entry named \<^verbatim>\<open>s\<close> otherwise. Its
  \<^verbatim>\<open>conditions\<close> are the single condition \<^verbatim>\<open>minecraft:survives_explosion\<close> for the
  kind \<^verbatim>\<open>block\<close>, and the absent marker (no condition) for every other kind.
\<close>

theorem loot_pool_list_bare_string:
  "loot_pool_list (PStr s) loot_type =
     Inr (PSeq PyList [PDict
       [(''name'', PStr ''loot_pool''),
        (''rolls'', PInt 1),
        (''entries'', PSeq PyList [PDict
           (if take 4 s = ''tag!''
            then [(''type'', PStr ''minecraft:tag''), (''name'', PStr (drop 4 s))]
            else [(''type'', PStr ''minecraft:item''), (''name'', PStr s)])]),
        (''conditions'',
           if loot_type = ''block''
           then PSeq PyList [PDict [(''condition'', PStr ''minecraft:survives_explosion'')]]
           else PNone)]])"
  by (simp add: mk_dict_def dict_update_def loot_default_conditions_def)

theorem loot_pool_list_bare_string_witness:
  "loot_pool_list (PStr ''minecraft:dirt'') ''block'' =
     Inr (PSeq PyList [PDict
       [(''name'', PStr ''loot_pool''),
        (''rolls'', PInt 1),
        (''entries'', PSeq PyList [PDict
           [(''type'', PStr ''minecraft:item''), (''name'', PStr ''minecraft:dirt'')]]),
        (''conditions'',
           PSeq PyList [PDict [(''condition'', PStr ''minecraft:survives_explosion'')]])]])
   \<and> loot_pool_list (PStr ''tag!forge:ores'') ''entity'' =
     Inr (PSeq PyList [PDict
       [(''name'', PStr ''loot_pool''),
        (''rolls'', PInt 1),
        (''entries'', PSeq PyList [PDict
           [(''type'', PStr ''minecraft:tag''), (''name'', PStr ''forge:ores'')]]),
        (''conditions'', PNone)]])"
  using loot_pool_list_bare_string [of "''minecraft:dirt''" "''block''"]
        loot_pool_list_bare_string [of "''tag!forge:ores''" "''entity''"]
  by simp

text \<open>
  C6: \<^verbatim>\<open>recipe_condition\<close> turns a string \<^verbatim>\<open>s\<close> into \<^verbatim>\<open>[{type: s}]\<close> and wraps a
  mapping in a one-element list. A sequence of strings and mappings becomes the list of
  their normalized forms. A sequence with a nested sequence among its elements is
  rejected with the unrecognized-input error of \<^verbatim>\<open>recipe_condition\<close> for one of its
  elements, since the elements are normalized in strict mode, and in strict mode every
  sequence is rejected.
\<close>

theorem recipe_condition_one_level:
  "recipe_condition (PStr s) strict = Inr (PSeq PyList [PDict [(''type'', PStr s)]])
   \<and> recipe_condition (PDict d) strict = Inr (PSeq PyList [PDict d])
   \<and> ((\<forall>c\<in>set xs. isinstance_str c \<or> isinstance_Dict c) \<longrightarrow>
        recipe_condition (PSeq k xs) False
          = Inr (PSeq PyList (map (\<lambda>c. case c of
                                PStr s \<Rightarrow> PDict [(''type'', PStr s)] | v \<Rightarrow> v) xs)))
   \<and> ((\<exists>c\<in>set xs. is_sequence c) \<longrightarrow>
        (\<exists>v\<in>set xs. recipe_condition (PSeq k xs) False
                         = Inl (RuntimeError_unknown v ''recipe_condition'')))
   \<and> recipe_condition (PSeq k xs) True
        = Inl (RuntimeError_unknown (PSeq k xs) ''recipe_condition'')"
proof -
  have a: "recipe_condition (PStr s) strict = Inr (PSeq PyList [PDict [(''type'', PStr s)]])"
    by (simp add: mk_dict_simps)
  have b: "recipe_condition (PDict d) strict = Inr (PSeq PyList [PDict d])"
    by simp
  have c: "recipe_condition (PSeq k xs) False
          = Inr (PSeq PyList (map (\<lambda>c. case c of
                                PStr s \<Rightarrow> PDict [(''type'', PStr s)] | v \<Rightarrow> v) xs))"
    if h: "\<forall>c\<in>set xs. isinstance_str c \<or> isinstance_Dict c"
  proof -
    let ?g = "\<lambda>c. case c of PStr s \<Rightarrow> PDict [(''type'', PStr s)] | v \<Rightarrow> v"
    have g: "recipe_condition x True = Inr (PSeq PyList [?g x]) \<and> isinstance_Dict (?g x)"
      if "x \<in> set xs" for x
      using h that by (cases x) (auto simp: mk_dict_simps)
    then have "mapM (\<lambda>c. recipe_condition c True) xs = Inr (map (\<lambda>c. PSeq PyList [?g c]) xs)"
      using mapM_all_Inr [of xs "\<lambda>c. recipe_condition c True" "\<lambda>c. PSeq PyList [?g c]"]
      by simp
    moreover have "flatten_list (map (\<lambda>c. PSeq PyList [?g c]) xs) = map ?g xs"
      using g by (intro flatten_list_singletons) simp
    ultimately show ?thesis
      by simp
  qed
  have d: "\<exists>v\<in>set xs. recipe_condition (PSeq k xs) False
                         = Inl (RuntimeError_unknown v ''recipe_condition'')"
    if h: "\<exists>c\<in>set xs. is_sequence c"
  proof -
    from h obtain c where c: "c \<in> set xs" "is_sequence c" by blast
    then obtain k' ys where "c = PSeq k' ys"
      using is_sequence_PSeq by blast
    then have "recipe_condition c True = Inl (RuntimeError_unknown c ''recipe_condition'')"
      by simp
    then obtain v e where v: "v \<in> set xs" "recipe_condition v True = Inl e"
      "mapM (\<lambda>c. recipe_condition c True) xs = Inl e"
      using mapM_Inl_first [OF c(1), of "\<lambda>c. recipe_condition c True"] by blast
    then have "e = RuntimeError_unknown v ''recipe_condition''"
      by (auto dest: recipe_condition_strict_error)
    then show ?thesis using v by auto
  qed
  have e: "recipe_condition (PSeq k xs) True
        = Inl (RuntimeError_unknown (PSeq k xs) ''recipe_condition'')"
    by simp
  show ?thesis using a b c d e by blast
qed

theorem recipe_condition_one_level_witness:
  "recipe_condition (PSeq PyList [PStr ''forge:mod_loaded'', PDict [(''type'', PStr ''x'')]]) False
     = Inr (PSeq PyList [PDict [(''type'', PStr ''forge:mod_loaded'')], PDict [(''type'', PStr ''x'')]])
   \<and> recipe_condition (PSeq PyList [PStr ''a'', PSeq PyList [PStr ''b'']]) False
     = Inl (RuntimeError_unknown (PSeq PyList [PStr ''b'']) ''recipe_condition'')"
proof -
  have "recipe_condition (PSeq PyList [PStr ''forge:mod_loaded'', PDict [(''type'', PStr ''x'')]]) False
     = Inr (PSeq PyList [PDict [(''type'', PStr ''forge:mod_loaded'')], PDict [(''type'', PStr ''x'')]])"
    using recipe_condition_one_level
      [of "''s''" True "[]" "[PStr ''forge:mod_loaded'', PDict [(''type'', PStr ''x'')]]" PyList]
    by simp
  moreover have "recipe_condition (PSeq PyList [PStr ''a'', PSeq PyList [PStr ''b'']]) False
     = Inl (RuntimeError_unknown (PSeq PyList [PStr ''b'']) ''recipe_condition'')"
    using recipe_condition_one_level
      [of "''s''" True "[]" "[PStr ''a'', PSeq PyList [PStr ''b'']]" PyList]
    by (auto simp: is_sequence_PSeq mk_dict_simps)
  ultimately show ?thesis by simp
qed


text \<open>
  C3 (as the claim states it) fails: the mapping \<^verbatim>\<open>loot_entry_list\<close> returns for
  \<^verbatim>\<open>{"name": "minecraft:dirt"}\<close> stores the absent marker under six keys, and the pool
  \<^verbatim>\<open>loot_pool_list\<close> returns for a string and a kind other than \<^verbatim>\<open>block\<close> stores it
  under \<^verbatim>\<open>conditions\<close>.
\<close>

theorem loot_lists_hold_none:
  "loot_entry_list (PDict [(''name'', PStr ''minecraft:dirt'')])
     = Inr (PSeq PyList [PDict
         [(''type'', PStr ''item''), (''conditions'', PNone),
          (''name'', PStr ''minecraft:dirt''), (''children'', PNone), (''expand'', PNone),
          (''functions'', PNone), (''weight'', PNone), (''quality'', PNone)]])
   \<and> loot_pool_list (PStr ''minecraft:dirt'') ''entity''
     = Inr (PSeq PyList [PDict
         [(''name'', PStr ''loot_pool''), (''rolls'', PInt 1),
          (''entries'', PSeq PyList [PDict
             [(''type'', PStr ''minecraft:item''), (''name'', PStr ''minecraft:dirt'')]]),
          (''conditions'', PNone)]])"
  by (simp add: mk_dict_def dict_update_def dict_get_def loot_default_conditions_def)

text \<open>
  C3 (as the code has it): whatever \<^verbatim>\<open>loot_pool_list\<close> or \<^verbatim>\<open>loot_entry_list\<close>
  returns, \<^verbatim>\<open>del_none\<close> accepts it and returns a value that holds the absent marker
  nowhere. Before that pass the returned list holds no absent marker for a string given
  to \<^verbatim>\<open>loot_entry_list\<close>, and for a string given to \<^verbatim>\<open>loot_pool_list\<close> with the kind
  \<^verbatim>\<open>block\<close>; for a string and any other kind the pool stores the absent marker under
  \<^verbatim>\<open>conditions\<close>, and for a mapping without the key \<^verbatim>\<open>name\<close> the entry stores it
  under \<^verbatim>\<open>name\<close>.
\<close>

theorem loot_lists_none_dropped:
  "(loot_pool_list data_in loot_type = Inr r
      \<longrightarrow> (\<exists>r'. del_none r = Inr r' \<and> none_free r'))
   \<and> (loot_entry_list data_in = Inr r
      \<longrightarrow> (\<exists>r'. del_none r = Inr r' \<and> none_free r'))
   \<and> (\<exists>e. loot_entry_list (PStr s) = Inr e \<and> none_free e)
   \<and> (\<exists>p. loot_pool_list (PStr s) ''block'' = Inr p \<and> none_free p)
   \<and> (loot_type \<noteq> ''block''
      \<longrightarrow> (\<exists>d. loot_pool_list (PStr s) loot_type = Inr (PSeq PyList [PDict d])
              \<and> map_of d ''conditions'' = Some PNone))
   \<and> (map_of m ''name'' = None \<and> loot_entry_list (PDict m) = Inr r
      \<longrightarrow> (\<exists>d. r = PSeq PyList [PDict d] \<and> map_of d ''name'' = Some PNone))"
proof -
  have 1: "loot_pool_list data_in loot_type = Inr r
      \<longrightarrow> (\<exists>r'. del_none r = Inr r' \<and> none_free r')"
    using loot_pool_list_is_list [of data_in loot_type r] del_none_none_free [of r] by blast
  have 2: "loot_entry_list data_in = Inr r
      \<longrightarrow> (\<exists>r'. del_none r = Inr r' \<and> none_free r')"
    using loot_entry_list_is_list [of data_in r] del_none_none_free [of r] by blast
  note 3 = loot_entry_list_str_none_free [of s]
  note 4 = loot_pool_list_str_block_none_free [of s]
  have 5: "loot_type \<noteq> ''block''
      \<longrightarrow> (\<exists>d. loot_pool_list (PStr s) loot_type = Inr (PSeq PyList [PDict d])
              \<and> map_of d ''conditions'' = Some PNone)"
    using loot_pool_list_str_other_kind [of loot_type s] by blast
  have 6: "map_of m ''name'' = None \<and> loot_entry_list (PDict m) = Inr r
      \<longrightarrow> (\<exists>d. r = PSeq PyList [PDict d] \<and> map_of d ''name'' = Some PNone)"
    using loot_entry_list_dict_no_name [of m r] by blast
  show ?thesis using 1 2 3 4 5 6 by (intro conjI)
qed

theorem loot_lists_none_dropped_witness:
  "loot_entry_list (PDict [(''type'', PStr ''minecraft:item'')])
     = Inr (PSeq PyList [PDict
         [(''type'', PStr ''minecraft:item''), (''conditions'', PNone),
          (''name'', PNone), (''children'', PNone), (''expand'', PNone),
          (''functions'', PNone), (''weight'', PNone), (''quality'', PNone)]])
   \<and> del_none (PSeq PyList [PDict
         [(''type'', PStr ''minecraft:item''), (''conditions'', PNone),
          (''name'', PNone), (''children'', PNone), (''expand'', PNone),
          (''functions'', PNone), (''weight'', PNone), (''quality'', PNone)]])
     = Inr (PSeq PyList [PDict [(''type'', PStr ''minecraft:item'')]])
   \<and> none_free (PSeq PyList [PDict [(''type'', PStr ''minecraft:item'')]])
   \<and> (\<exists>d. loot_pool_list (PStr ''minecraft:dirt'') ''entity'' = Inr (PSeq PyList [PDict d])
              \<and> map_of d ''conditions'' = Some PNone)
   \<and> (\<exists>p. loot_pool_list (PStr ''minecraft:dirt'') ''block'' = Inr p \<and> none_free p)"
  using loot_lists_none_dropped
    [of "PDict [(''type'', PStr ''minecraft:item'')]" "''entity''"
        "PSeq PyList [PDict
         [(''type'', PStr ''minecraft:item''), (''conditions'', PNone),
          (''name'', PNone), (''children'', PNone), (''expand'', PNone),
          (''functions'', PNone), (''weight'', PNone), (''quality'', PNone)]]"
        "''minecraft:dirt''" "[(''type'', PStr ''minecraft:item'')]"]
  by (simp add: mk_dict_def dict_update_def dict_get_def)

section \<open>Properties of the shape flattener\<close>

text \<open>
  C9: flattening is associative. If \<open>ys\<close> is the sequence \<open>xs\<close> with any of its nested
  sequences replaced by their own flattening, then \<^verbatim>\<open>flatten_list\<close> yields the same
  flat list on \<open>ys\<close> as on \<open>xs\<close>. Strings are leaves on both sides.
\<close>

theorem flatten_list_preflattened:
  "preflattened xs ys \<Longrightarrow> flatten_list ys = flatten_list xs"
proof (induction rule: preflattened.induct)
  case pre_Nil
  then show ?case by simp
next
  case (pre_keep xs ys x)
  then show ?case
    using flatten_list_Cons [of x xs] flatten_list_Cons [of x ys] by simp
next
  case (pre_inside zs zs' xs ys k)
  then show ?case by simp
next
  case (pre_flatten zs zs' xs ys k)
  then show ?case by (simp add: flatten_list_idem)
qed

theorem flatten_list_preflattened_witness:
  "preflattened
     [PStr ''a'', PSeq PyTuple [PStr ''b'', PSeq PyList [PStr ''c'', PSeq PyList []]], PInt 1]
     [PStr ''a'', PSeq PyList [PStr ''b'', PStr ''c''], PInt 1]
   \<and> flatten_list [PStr ''a'', PSeq PyList [PStr ''b'', PStr ''c''], PInt 1]
     = flatten_list
         [PStr ''a'', PSeq PyTuple [PStr ''b'', PSeq PyList [PStr ''c'', PSeq PyList []]], PInt 1]
   \<and> flatten_list [PStr ''a'', PSeq PyList [PStr ''b'', PStr ''c''], PInt 1]
     = [PStr ''a'', PStr ''b'', PStr ''c'', PInt 1]"
proof -
  have "preflattened [PStr ''b'', PSeq PyList [PStr ''c'', PSeq PyList []]]
          [PStr ''b'', PSeq PyList [PStr ''c'', PSeq PyList []]]"
    by (intro preflattened.intros)
  then have "preflattened
     [PSeq PyTuple [PStr ''b'', PSeq PyList [PStr ''c'', PSeq PyList []]], PInt 1]
     [PSeq PyList (flatten_list [PStr ''b'', PSeq PyList [PStr ''c'', PSeq PyList []]]), PInt 1]"
    by (intro pre_flatten pre_keep pre_Nil)
  then have p: "preflattened
     [PStr ''a'', PSeq PyTuple [PStr ''b'', PSeq PyList [PStr ''c'', PSeq PyList []]], PInt 1]
     [PStr ''a'', PSeq PyList [PStr ''b'', PStr ''c''], PInt 1]"
    using pre_keep by fastforce
  show ?thesis
    using p flatten_list_preflattened [OF p] by simp
qed

section \<open>Properties of the static geometry tables\<close>

text \<open>
  C8: for all model paths the mapping built by \<^verbatim>\<open>stairs_variants\<close> has 40 items with
  pairwise different keys, and its keys are exactly the combinations of a facing, a half
  and a shape.
\<close>

theorem stairs_variants_keys:
  "length (stairs_variants stairs stairs_inner stairs_outer) = 40
   \<and> distinct (map fst (stairs_variants stairs stairs_inner stairs_outer))
   \<and> set (map fst (stairs_variants stairs stairs_inner stairs_outer))
       = set [''facing='' @ f @ '',half='' @ h @ '',shape='' @ s.
               f \<leftarrow> [''east'', ''west'', ''south'', ''north''],
               h \<leftarrow> [''bottom'', ''top''],
               s \<leftarrow> [''straight'', ''inner_left'', ''inner_right'',
                        ''outer_left'', ''outer_right'']]"
proof -
  note k = stairs_variants_key_list [of stairs stairs_inner stairs_outer]
  have 1: "length (stairs_variants stairs stairs_inner stairs_outer) = 40"
    using k by (rule conjunct2)
  have 2: "distinct (map fst (stairs_variants stairs stairs_inner stairs_outer))"
    unfolding conjunct1 [OF k] by (rule stairs_keys_distinct)
  have 3: "set (map fst (stairs_variants stairs stairs_inner stairs_outer))
       = set [''facing='' @ f @ '',half='' @ h @ '',shape='' @ s.
               f \<leftarrow> [''east'', ''west'', ''south'', ''north''],
               h \<leftarrow> [''bottom'', ''top''],
               s \<leftarrow> [''straight'', ''inner_left'', ''inner_right'',
                        ''outer_left'', ''outer_right'']]"
    unfolding conjunct1 [OF k] by (rule stairs_keys_same_set)
  show ?thesis using 1 2 3 by (intro conjI)
qed

end
